theory Spec2Isabelle
  imports Main "HOL-Library.Log_Nat"
begin

section \<open>JavaScript strings\<close>

text \<open>
  A JavaScript string is a sequence of UTF-16 code units. The model keeps the code
  units as natural numbers, so that every string the browser can hand to the code is an
  input of the model; \<open>js\<close> turns a literal into its code units.
\<close>

type_synonym jsstring = "nat list"

definition js :: "string \<Rightarrow> jsstring" where
  "js s = map of_char s"

definition cu :: "char \<Rightarrow> nat" where
  "cu c = of_char c"

definition in_range :: "char \<Rightarrow> char \<Rightarrow> nat \<Rightarrow> bool" where
  "in_range lo hi c = (cu lo \<le> c \<and> c \<le> cu hi)"

definition is_upper :: "nat \<Rightarrow> bool" where
  "is_upper c = in_range CHR ''A'' CHR ''Z'' c"

definition is_lower :: "nat \<Rightarrow> bool" where
  "is_lower c = in_range CHR ''a'' CHR ''z'' c"

definition is_digit :: "nat \<Rightarrow> bool" where
  "is_digit c = in_range CHR ''0'' CHR ''9'' c"

section \<open>Password rules (src/utils/passwordValidation.ts)\<close>

record PasswordRuleResult =
  minLength :: bool
  uppercase :: bool
  lowercase :: bool
  number :: bool
  special :: bool

text \<open>\<open>/re/.test(password)\<close> for a one-character class: some code unit is in the class.\<close>

definition validatePasswordRules :: "jsstring \<Rightarrow> PasswordRuleResult" where
  "validatePasswordRules password =
     \<lparr> minLength = (length password \<ge> 8),
       uppercase = list_ex is_upper password,
       lowercase = list_ex is_lower password,
       number = list_ex is_digit password,
       special = list_ex (\<lambda>c. \<not> (is_upper c \<or> is_lower c \<or> is_digit c)) password \<rparr>"

definition isPasswordValid :: "jsstring \<Rightarrow> bool" where
  "isPasswordValid password =
     (let rules = validatePasswordRules password
      in list_all (\<lambda>b. b)
           [minLength rules, uppercase rules, lowercase rules, number rules, special rules])"

section \<open>String operations of the platform\<close>

text \<open>\<open>s.split(sep)\<close> for a one-character separator: never the empty list.\<close>

fun str_split :: "nat \<Rightarrow> jsstring \<Rightarrow> jsstring list" where
  "str_split sep [] = [[]]"
| "str_split sep (c # cs) =
     (if c = sep then [] # str_split sep cs
      else (case str_split sep cs of [] \<Rightarrow> [[c]] | p # ps \<Rightarrow> (c # p) # ps))"

text \<open>\<open>s.replace(/a/g, b)\<close> for single characters.\<close>

definition replace_all :: "nat \<Rightarrow> nat \<Rightarrow> jsstring \<Rightarrow> jsstring" where
  "replace_all a b s = map (\<lambda>c. if c = a then b else c) s"

text \<open>\<open>s.padEnd(n, c)\<close>: nothing is appended when \<open>n\<close> is at most the length.\<close>

definition padEnd :: "jsstring \<Rightarrow> nat \<Rightarrow> nat \<Rightarrow> jsstring" where
  "padEnd s n c = s @ replicate (n - length s) c"

datatype js_error = InvalidCharacterError | SyntaxError | TypeError

subsection \<open>atob: the forgiving base64 decoder\<close>

definition is_ascii_whitespace :: "nat \<Rightarrow> bool" where
  "is_ascii_whitespace c = (c = 9 \<or> c = 10 \<or> c = 12 \<or> c = 13 \<or> c = 32)"

definition is_base64_char :: "nat \<Rightarrow> bool" where
  "is_base64_char c =
     (is_upper c \<or> is_lower c \<or> is_digit c \<or> c = cu CHR ''+'' \<or> c = cu CHR ''/'')"

definition base64_index :: "nat \<Rightarrow> nat" where
  "base64_index c =
     (if is_upper c then c - cu CHR ''A''
      else if is_lower c then c - cu CHR ''a'' + 26
      else if is_digit c then c - cu CHR ''0'' + 52
      else if c = cu CHR ''+'' then 62
      else 63)"

text \<open>
  When the length is a multiple of four, one or two trailing \<open>=\<close> are removed.
\<close>

definition strip_padding :: "jsstring \<Rightarrow> jsstring" where
  "strip_padding d =
     (if length d mod 4 = 0 then
        (case rev d of
           a # b # r \<Rightarrow>
             if a = cu CHR ''='' \<and> b = cu CHR ''='' then rev r
             else if a = cu CHR ''='' then rev (b # r)
             else d
         | _ \<Rightarrow> d)
      else d)"

text \<open>
  Four sextets give three bytes; a final group of three sextets gives two bytes and a
  final group of two gives one, the left-over bits being dropped.
\<close>

fun decode_sextets :: "nat list \<Rightarrow> nat list" where
  "decode_sextets (a # b # c # d # rest) =
     (a * 4 + b div 16) # ((b mod 16) * 16 + c div 4) # ((c mod 4) * 64 + d)
       # decode_sextets rest"
| "decode_sextets [a, b, c] = [a * 4 + b div 16, (b mod 16) * 16 + c div 4]"
| "decode_sextets [a, b] = [a * 4 + b div 16]"
| "decode_sextets _ = []"

definition atob :: "jsstring \<Rightarrow> js_error + jsstring" where
  "atob data =
     (let d = strip_padding (filter (\<lambda>c. \<not> is_ascii_whitespace c) data)
      in if length d mod 4 = 1 then Inl InvalidCharacterError
         else if \<not> list_all is_base64_char d then Inl InvalidCharacterError
         else Inr (decode_sextets (map base64_index d)))"

section \<open>JavaScript numbers\<close>

text \<open>
  A Number is an IEEE 754 double. The values a JSON text can denote are the finite
  doubles and the two infinities (a literal too large for a double); each finite double is
  kept as the rational it equals, and negative zero is not told apart from zero, which
  neither truthiness nor \<open>>\<close> does.
\<close>

datatype jsnumber = Finite rat | PlusInfinity | MinusInfinity

definition pow2 :: "int \<Rightarrow> rat" where
  "pow2 e = (if e \<ge> 0 then 2 ^ nat e else 1 / 2 ^ nat (- e))"

definition pow10 :: "int \<Rightarrow> rat" where
  "pow10 e = (if e \<ge> 0 then 10 ^ nat e else 1 / 10 ^ nat (- e))"

definition round_half_even :: "rat \<Rightarrow> int" where
  "round_half_even q =
     (let f = \<lfloor>q\<rfloor>; r = q - of_int f
      in if r < 1 / 2 then f
         else if r > 1 / 2 then f + 1
         else if even f then f else f + 1)"

text \<open>The exponent \<open>e\<close> with \<open>2 ^ e \<le> q < 2 ^ (e + 1)\<close>, for a positive \<open>q\<close>.\<close>

definition floor_log2 :: "rat \<Rightarrow> int" where
  "floor_log2 q =
     (let (n, d) = quotient_of q; k = bitlen n - bitlen d
      in if pow2 k \<le> q then k else k - 1)"

text \<open>
  Rounding a positive rational to the nearest double, ties to even: 53 bits of
  significand, the spacing never below \<open>2 ^ -1074\<close>, and infinity from \<open>2 ^ 1024\<close> on.
\<close>

definition to_double_pos :: "rat \<Rightarrow> jsnumber" where
  "to_double_pos q =
     (let e = floor_log2 q;
          p = max (e - 52) (- 1074);
          v = of_int (round_half_even (q / pow2 p)) * pow2 p
      in if v \<ge> pow2 1024 then PlusInfinity else Finite v)"

definition to_double :: "rat \<Rightarrow> jsnumber" where
  "to_double q =
     (if q = 0 then Finite 0
      else if q > 0 then to_double_pos q
      else (case to_double_pos (- q) of
              Finite v \<Rightarrow> Finite (- v)
            | PlusInfinity \<Rightarrow> MinusInfinity
            | MinusInfinity \<Rightarrow> PlusInfinity))"

text \<open>\<open>x > n\<close> for a Number \<open>x\<close> and an integer \<open>n\<close>.\<close>

definition number_gt :: "jsnumber \<Rightarrow> int \<Rightarrow> bool" where
  "number_gt x n =
     (case x of Finite v \<Rightarrow> v > of_int n | PlusInfinity \<Rightarrow> True | MinusInfinity \<Rightarrow> False)"

section \<open>JSON.parse\<close>

text \<open>
  A parsed JSON value. An object keeps its members in the order of the text, duplicates
  included; reading a property takes the last member of that name, as the later
  definition overwrites the earlier one.
\<close>

datatype json =
    JNull
  | JBool bool
  | JNumber jsnumber
  | JString jsstring
  | JArray "json list"
  | JObject "(jsstring \<times> json) list"

subsection \<open>Tokens\<close>

datatype token =
    TLBrace | TRBrace | TLBracket | TRBracket | TColon | TComma
  | TString jsstring | TNumber jsnumber | TTrue | TFalse | TNull

datatype numphase =
    AfterMinus | AfterZero | InInt | AfterDot | InFrac | AfterE | AfterESign | InExp

text \<open>
  What has been read of a number: its sign, the digits of the integer and fraction parts
  as one integer, how many of them are fraction digits, and the sign and digits
  of the exponent.
\<close>

record numacc =
  negative :: bool
  mantissa :: int
  fraction_digits :: int
  exp_negative :: bool
  exp_digits :: int

definition numacc0 :: numacc where
  "numacc0 = \<lparr> negative = False, mantissa = 0, fraction_digits = 0,
               exp_negative = False, exp_digits = 0 \<rparr>"

definition number_of_literal :: "numacc \<Rightarrow> jsnumber" where
  "number_of_literal a =
     to_double
       ((if negative a then - 1 else 1) * of_int (mantissa a)
        * pow10 ((if exp_negative a then - exp_digits a else exp_digits a)
                 - fraction_digits a))"

datatype lexstate =
    Idle
  | InString jsstring
  | InEscape jsstring
  | InUnicode jsstring nat nat
  | InLiteral jsstring token
  | InNumber numphase numacc

definition is_json_whitespace :: "nat \<Rightarrow> bool" where
  "is_json_whitespace c = (c = 9 \<or> c = 10 \<or> c = 13 \<or> c = 32)"

definition digit_value :: "nat \<Rightarrow> int" where
  "digit_value c = int (c - cu CHR ''0'')"

definition hex_value :: "nat \<Rightarrow> nat option" where
  "hex_value c =
     (if is_digit c then Some (c - cu CHR ''0'')
      else if in_range CHR ''a'' CHR ''f'' c then Some (c - cu CHR ''a'' + 10)
      else if in_range CHR ''A'' CHR ''F'' c then Some (c - cu CHR ''A'' + 10)
      else None)"

text \<open>A character at a token boundary.\<close>

definition lex_idle :: "nat \<Rightarrow> (lexstate \<times> token list) option" where
  "lex_idle c =
     (if is_json_whitespace c then Some (Idle, [])
      else if c = cu CHR ''{'' then Some (Idle, [TLBrace])
      else if c = cu CHR ''}'' then Some (Idle, [TRBrace])
      else if c = cu CHR ''['' then Some (Idle, [TLBracket])
      else if c = cu CHR '']'' then Some (Idle, [TRBracket])
      else if c = cu CHR '':'' then Some (Idle, [TColon])
      else if c = cu CHR '','' then Some (Idle, [TComma])
      else if c = 34 then Some (InString [], [])
      else if c = cu CHR ''-'' then Some (InNumber AfterMinus (numacc0\<lparr>negative := True\<rparr>), [])
      else if c = cu CHR ''0'' then Some (InNumber AfterZero numacc0, [])
      else if is_digit c then Some (InNumber InInt (numacc0\<lparr>mantissa := digit_value c\<rparr>), [])
      else if c = cu CHR ''t'' then Some (InLiteral (js ''rue'') TTrue, [])
      else if c = cu CHR ''f'' then Some (InLiteral (js ''alse'') TFalse, [])
      else if c = cu CHR ''n'' then Some (InLiteral (js ''ull'') TNull, [])
      else None)"

text \<open>A character that cannot continue a complete number ends it and is read afresh.\<close>

definition lex_number_end :: "numacc \<Rightarrow> nat \<Rightarrow> (lexstate \<times> token list) option" where
  "lex_number_end a c =
     (case lex_idle c of
        None \<Rightarrow> None
      | Some (st, toks) \<Rightarrow> Some (st, TNumber (number_of_literal a) # toks))"

definition is_e :: "nat \<Rightarrow> bool" where
  "is_e c = (c = cu CHR ''e'' \<or> c = cu CHR ''E'')"

definition push_digit :: "numacc \<Rightarrow> nat \<Rightarrow> numacc" where
  "push_digit a c = a\<lparr>mantissa := 10 * mantissa a + digit_value c\<rparr>"

definition push_fraction_digit :: "numacc \<Rightarrow> nat \<Rightarrow> numacc" where
  "push_fraction_digit a c =
     a\<lparr>mantissa := 10 * mantissa a + digit_value c, fraction_digits := fraction_digits a + 1\<rparr>"

definition push_exp_digit :: "numacc \<Rightarrow> nat \<Rightarrow> numacc" where
  "push_exp_digit a c = a\<lparr>exp_digits := 10 * exp_digits a + digit_value c\<rparr>"

fun lex_number :: "numphase \<Rightarrow> numacc \<Rightarrow> nat \<Rightarrow> (lexstate \<times> token list) option" where
  "lex_number AfterMinus a c =
     (if c = cu CHR ''0'' then Some (InNumber AfterZero a, [])
      else if is_digit c then Some (InNumber InInt (push_digit a c), [])
      else None)"
| "lex_number AfterZero a c =
     (if c = cu CHR ''.'' then Some (InNumber AfterDot a, [])
      else if is_e c then Some (InNumber AfterE a, [])
      else lex_number_end a c)"
| "lex_number InInt a c =
     (if is_digit c then Some (InNumber InInt (push_digit a c), [])
      else if c = cu CHR ''.'' then Some (InNumber AfterDot a, [])
      else if is_e c then Some (InNumber AfterE a, [])
      else lex_number_end a c)"
| "lex_number AfterDot a c =
     (if is_digit c then Some (InNumber InFrac (push_fraction_digit a c), []) else None)"
| "lex_number InFrac a c =
     (if is_digit c then Some (InNumber InFrac (push_fraction_digit a c), [])
      else if is_e c then Some (InNumber AfterE a, [])
      else lex_number_end a c)"
| "lex_number AfterE a c =
     (if c = cu CHR ''+'' then Some (InNumber AfterESign a, [])
      else if c = cu CHR ''-'' then Some (InNumber AfterESign (a\<lparr>exp_negative := True\<rparr>), [])
      else if is_digit c then Some (InNumber InExp (push_exp_digit a c), [])
      else None)"
| "lex_number AfterESign a c =
     (if is_digit c then Some (InNumber InExp (push_exp_digit a c), []) else None)"
| "lex_number InExp a c =
     (if is_digit c then Some (InNumber InExp (push_exp_digit a c), [])
      else lex_number_end a c)"

text \<open>The character an escape stands for; \<open>u\<close> is handled apart.\<close>

definition unescape :: "nat \<Rightarrow> nat option" where
  "unescape c =
     (if c = 34 then Some 34
      else if c = 92 then Some 92
      else if c = cu CHR ''/'' then Some (cu CHR ''/'')
      else if c = cu CHR ''b'' then Some 8
      else if c = cu CHR ''f'' then Some 12
      else if c = cu CHR ''n'' then Some 10
      else if c = cu CHR ''r'' then Some 13
      else if c = cu CHR ''t'' then Some 9
      else None)"

text \<open>
  One character of the text. A string is collected in reverse; 34 is the double quote
  and 92 the backslash.
\<close>

fun lex_step :: "lexstate \<Rightarrow> nat \<Rightarrow> (lexstate \<times> token list) option" where
  "lex_step Idle c = lex_idle c"
| "lex_step (InString acc) c =
     (if c = 34 then Some (Idle, [TString (rev acc)])
      else if c = 92 then Some (InEscape acc, [])
      else if c < 32 then None
      else Some (InString (c # acc), []))"
| "lex_step (InEscape acc) c =
     (if c = cu CHR ''u'' then Some (InUnicode acc 4 0, [])
      else (case unescape c of
              None \<Rightarrow> None
            | Some k \<Rightarrow> Some (InString (k # acc), [])))"
| "lex_step (InUnicode acc n v) c =
     (case hex_value c of
        None \<Rightarrow> None
      | Some h \<Rightarrow>
          if n \<le> 1 then Some (InString ((16 * v + h) # acc), [])
          else Some (InUnicode acc (n - 1) (16 * v + h), []))"
| "lex_step (InLiteral rest tok) c =
     (case rest of
        [] \<Rightarrow> None
      | x # xs \<Rightarrow>
          if c \<noteq> x then None
          else if xs = [] then Some (Idle, [tok])
          else Some (InLiteral xs tok, []))"
| "lex_step (InNumber ph a) c = lex_number ph a c"

text \<open>At the end of the text only a complete number may be pending.\<close>

definition lex_end :: "lexstate \<Rightarrow> token list option" where
  "lex_end st =
     (case st of
        Idle \<Rightarrow> Some []
      | InNumber ph a \<Rightarrow>
          if ph = AfterZero \<or> ph = InInt \<or> ph = InFrac \<or> ph = InExp
          then Some [TNumber (number_of_literal a)] else None
      | _ \<Rightarrow> None)"

fun lex_run :: "lexstate \<Rightarrow> jsstring \<Rightarrow> token list option" where
  "lex_run st [] = lex_end st"
| "lex_run st (c # cs) =
     (case lex_step st c of
        None \<Rightarrow> None
      | Some (st', toks) \<Rightarrow>
          (case lex_run st' cs of None \<Rightarrow> None | Some later \<Rightarrow> Some (toks @ later)))"

subsection \<open>The grammar, with an explicit stack\<close>

text \<open>
  An open array with its elements so far, or an open object with its members so far and
  the key whose value is awaited; both lists are in reverse.
\<close>

datatype frame =
    ArrayFrame "json list"
  | ObjectFrame "(jsstring \<times> json) list" "jsstring option"

datatype expect =
    ExpValue | ExpValueOrClose | ExpKeyOrClose | ExpKey | ExpColon | ExpCommaOrClose | ExpEnd

type_synonym pstate = "expect \<times> frame list \<times> json option"

text \<open>A complete value goes to the innermost open container, or is the result.\<close>

fun deliver :: "json \<Rightarrow> frame list \<Rightarrow> pstate option" where
  "deliver v [] = Some (ExpEnd, [], Some v)"
| "deliver v (ArrayFrame xs # st) = Some (ExpCommaOrClose, ArrayFrame (v # xs) # st, None)"
| "deliver v (ObjectFrame ms (Some k) # st) =
     Some (ExpCommaOrClose, ObjectFrame ((k, v) # ms) None # st, None)"
| "deliver v (ObjectFrame ms None # st) = None"

definition value_expected :: "expect \<Rightarrow> bool" where
  "value_expected e = (e = ExpValue \<or> e = ExpValueOrClose)"

fun parse_step :: "pstate \<Rightarrow> token \<Rightarrow> pstate option" where
  "parse_step (e, st, r) TLBracket =
     (if value_expected e then Some (ExpValueOrClose, ArrayFrame [] # st, None) else None)"
| "parse_step (e, st, r) TLBrace =
     (if value_expected e then Some (ExpKeyOrClose, ObjectFrame [] None # st, None) else None)"
| "parse_step (e, st, r) TRBracket =
     (if e = ExpValueOrClose \<or> e = ExpCommaOrClose then
        (case st of ArrayFrame xs # st' \<Rightarrow> deliver (JArray (rev xs)) st' | _ \<Rightarrow> None)
      else None)"
| "parse_step (e, st, r) TRBrace =
     (if e = ExpKeyOrClose \<or> e = ExpCommaOrClose then
        (case st of ObjectFrame ms None # st' \<Rightarrow> deliver (JObject (rev ms)) st' | _ \<Rightarrow> None)
      else None)"
| "parse_step (e, st, r) TColon = (if e = ExpColon then Some (ExpValue, st, None) else None)"
| "parse_step (e, st, r) TComma =
     (if e = ExpCommaOrClose then
        (case st of
           ArrayFrame xs # st' \<Rightarrow> Some (ExpValue, st, None)
         | ObjectFrame ms k # st' \<Rightarrow> Some (ExpKey, st, None)
         | [] \<Rightarrow> None)
      else None)"
| "parse_step (e, st, r) (TString s) =
     (if value_expected e then deliver (JString s) st
      else if e = ExpKeyOrClose \<or> e = ExpKey then
        (case st of
           ObjectFrame ms None # st' \<Rightarrow> Some (ExpColon, ObjectFrame ms (Some s) # st', None)
         | _ \<Rightarrow> None)
      else None)"
| "parse_step (e, st, r) (TNumber n) =
     (if value_expected e then deliver (JNumber n) st else None)"
| "parse_step (e, st, r) TTrue = (if value_expected e then deliver (JBool True) st else None)"
| "parse_step (e, st, r) TFalse = (if value_expected e then deliver (JBool False) st else None)"
| "parse_step (e, st, r) TNull = (if value_expected e then deliver JNull st else None)"

fun parse_run :: "pstate \<Rightarrow> token list \<Rightarrow> pstate option" where
  "parse_run ps [] = Some ps"
| "parse_run ps (t # ts) =
     (case parse_step ps t of None \<Rightarrow> None | Some ps' \<Rightarrow> parse_run ps' ts)"

definition JSON_parse :: "jsstring \<Rightarrow> js_error + json" where
  "JSON_parse text =
     (case lex_run Idle text of
        None \<Rightarrow> Inl SyntaxError
      | Some toks \<Rightarrow>
          (case parse_run (ExpValue, [], None) toks of
             Some (ExpEnd, [], Some v) \<Rightarrow> Inr v
           | _ \<Rightarrow> Inl SyntaxError))"

section \<open>Token Store (src/utils/storage.ts)\<close>

text \<open>The browser's localStorage: keys to strings; \<open>getItem\<close> of a missing key is null.\<close>

type_synonym storage = "string \<rightharpoonup> jsstring"

definition TOKEN_KEY :: string where
  "TOKEN_KEY = ''auth_token''"

definition setToken :: "jsstring \<Rightarrow> storage \<Rightarrow> storage" where
  "setToken token ls = ls(TOKEN_KEY \<mapsto> token)"

definition getToken :: "storage \<Rightarrow> jsstring option" where
  "getToken ls = ls TOKEN_KEY"

definition removeToken :: "storage \<Rightarrow> storage" where
  "removeToken ls = ls(TOKEN_KEY := None)"

text \<open>
  The body of the \<open>try\<close> block of \<open>decodeJwtPayload\<close>: \<open>Inl\<close> is an exception
  thrown by \<open>atob\<close> or \<open>JSON.parse\<close>, \<open>Inr None\<close> the early \<open>return null\<close>.
\<close>

definition decodeJwtPayload_try :: "jsstring \<Rightarrow> js_error + json option" where
  "decodeJwtPayload_try token =
     (let parts = str_split (cu CHR ''.'') token
      in if length parts \<noteq> 3 then Inr None
         else
           let base64Url = parts ! 1;
               base64 = replace_all (cu CHR ''_'') (cu CHR ''/'')
                          (replace_all (cu CHR ''-'') (cu CHR ''+'') base64Url);
               padded = padEnd base64 (((length base64 + 3) div 4) * 4) (cu CHR ''='')
           in case atob padded of
                Inl e \<Rightarrow> Inl e
              | Inr json \<Rightarrow>
                  (case JSON_parse json of Inl e \<Rightarrow> Inl e | Inr v \<Rightarrow> Inr (Some v)))"

text \<open>The \<open>catch\<close> turns every exception into null.\<close>

definition decodeJwtPayload :: "jsstring \<Rightarrow> json option" where
  "decodeJwtPayload token =
     (case decodeJwtPayload_try token of Inl e \<Rightarrow> None | Inr p \<Rightarrow> p)"

text \<open>
  \<open>!payload\<close>: the null of the \<open>catch\<close> and the falsy values \<open>JSON.parse\<close> can
  return, which are null, false, zero and the empty string.
\<close>

fun falsy :: "json option \<Rightarrow> bool" where
  "falsy None = True"
| "falsy (Some JNull) = True"
| "falsy (Some (JBool b)) = (\<not> b)"
| "falsy (Some (JNumber n)) = (n = Finite 0)"
| "falsy (Some (JString s)) = (s = [])"
| "falsy (Some (JArray xs)) = False"
| "falsy (Some (JObject ms)) = False"

text \<open>
  \<open>payload.exp\<close>: reading a property of null throws; an object gives its last member
  of that name or undefined (\<open>None\<close>); an array, a string, a number or a boolean has no
  property \<open>exp\<close>.
\<close>

fun get_exp :: "json option \<Rightarrow> js_error + json option" where
  "get_exp None = Inl TypeError"
| "get_exp (Some JNull) = Inl TypeError"
| "get_exp (Some (JObject ms)) = Inr (map_of (rev ms) (js ''exp''))"
| "get_exp (Some v) = Inr None"

text \<open>
  \<open>isTokenValid\<close>, with \<open>Date.now()\<close> as the parameter \<open>now\<close> (milliseconds).
  \<open>Inl\<close> would be an exception that escapes to the caller.
\<close>

definition isTokenValid :: "int \<Rightarrow> jsstring \<Rightarrow> js_error + bool" where
  "isTokenValid now token =
     (let payload = decodeJwtPayload token
      in if falsy payload then Inr False
         else (case get_exp payload of
                 Inl e \<Rightarrow> Inl e
               | Inr (Some (JNumber exp_value)) \<Rightarrow>
                   (let nowSeconds = now div 1000 in Inr (number_gt exp_value nowSeconds))
               | Inr other \<Rightarrow> Inr True))"

text \<open>\<open>isAuthenticated\<close>: \<open>!token\<close> holds for null and for the empty string.\<close>

definition isAuthenticated :: "int \<Rightarrow> storage \<Rightarrow> js_error + bool" where
  "isAuthenticated now ls =
     (case getToken ls of
        None \<Rightarrow> Inr False
      | Some token \<Rightarrow> if token = [] then Inr False else isTokenValid now token)"

section \<open>Session State (src/context/AuthContext.tsx)\<close>

text \<open>
  What the session code reads and writes: the localStorage, the \<open>isAuthenticated\<close>
  state of \<open>AuthProvider\<close>, \<open>window.location.pathname\<close>, and the values assigned to
  \<open>window.location.href\<close>, in order. An assignment asks the browser to load that page;
  it does not change the pathname the running code sees.
\<close>

record app =
  localStorage :: storage
  isAuthenticated_flag :: bool
  pathname :: jsstring
  href_assignments :: "jsstring list"

text \<open>The first render: \<open>useState(checkAuth())\<close>.\<close>

definition AuthProvider_initial :: "int \<Rightarrow> app \<Rightarrow> js_error + app" where
  "AuthProvider_initial now w =
     (case isAuthenticated now (localStorage w) of
        Inl e \<Rightarrow> Inl e
      | Inr b \<Rightarrow> Inr (w\<lparr>isAuthenticated_flag := b\<rparr>))"

text \<open>The effect that runs once after the first render: \<open>setIsAuthenticated(!!token)\<close>.\<close>

definition AuthProvider_mount :: "app \<Rightarrow> app" where
  "AuthProvider_mount w =
     (let token = getToken (localStorage w)
      in w\<lparr>isAuthenticated_flag := (case token of None \<Rightarrow> False | Some t \<Rightarrow> t \<noteq> [])\<rparr>)"

definition AuthProvider_startup :: "int \<Rightarrow> app \<Rightarrow> js_error + app" where
  "AuthProvider_startup now w =
     (case AuthProvider_initial now w of
        Inl e \<Rightarrow> Inl e
      | Inr w' \<Rightarrow> Inr (AuthProvider_mount w'))"

definition login :: "jsstring \<Rightarrow> app \<Rightarrow> app" where
  "login token w =
     w\<lparr>localStorage := setToken token (localStorage w), isAuthenticated_flag := True\<rparr>"

definition logout :: "app \<Rightarrow> app" where
  "logout w = w\<lparr>localStorage := removeToken (localStorage w), isAuthenticated_flag := False\<rparr>"

datatype session_event = Login jsstring | Logout

fun apply_event :: "app \<Rightarrow> session_event \<Rightarrow> app" where
  "apply_event w (Login token) = login token w"
| "apply_event w Logout = logout w"

section \<open>HTTP Client (api/axiosInstance.ts)\<close>

text \<open>
  A request configuration: its headers, and every other field in the extension of the
  record. The header names are plain strings.
\<close>

record request_config =
  headers :: "(string \<rightharpoonup> jsstring) option"

text \<open>The request interceptor: \<open>token && config.headers\<close> guards the assignment.\<close>

definition request_onFulfilled ::
  "storage \<Rightarrow> 'a request_config_scheme \<Rightarrow> 'a request_config_scheme" where
  "request_onFulfilled ls config =
     (let token = getToken ls
      in case token of
           None \<Rightarrow> config
         | Some t \<Rightarrow>
             (case headers config of
                None \<Rightarrow> config
              | Some h \<Rightarrow>
                  if t \<noteq> [] then config\<lparr>headers := Some (h(''Authorization'' \<mapsto> js ''Bearer '' @ t))\<rparr>
                  else config))"

text \<open>
  An error of the HTTP client: \<open>error.response?.status\<close> and
  \<open>error.response?.data?.error\<close>, each undefined (\<open>None\<close>) when the part before it is
  missing; every other field is in the extension of the record.
\<close>

record axios_error =
  response_status :: "nat option"
  response_data_error :: "jsstring option"

text \<open>
  The response interceptor's error handler. The result \<open>Inl error\<close> is
  \<open>Promise.reject(error)\<close>.
\<close>

definition response_onRejected ::
  "'a axios_error_scheme \<Rightarrow> app \<Rightarrow> ('a axios_error_scheme + 'r) \<times> app" where
  "response_onRejected error w =
     (let w1 =
        (if response_status error = Some 401 then
           (let w' = w\<lparr>localStorage := removeToken (localStorage w)\<rparr>
            in if pathname w' \<noteq> js ''/login''
               then w'\<lparr>href_assignments := href_assignments w' @ [js ''/login'']\<rparr>
               else w')
         else w)
      in (Inl error, w1))"

text \<open>Several failed responses, handled one after the other by the event loop.\<close>

fun handle_errors :: "'a axios_error_scheme list \<Rightarrow> app \<Rightarrow> app" where
  "handle_errors [] w = w"
| "handle_errors (e # es) w =
     handle_errors es (snd (response_onRejected e w :: ('a axios_error_scheme + unit) \<times> app))"

section \<open>API Service Layer (src/services)\<close>

datatype http_method = GET | POST | PATCH | DELETE

text \<open>
  The backend seen from the services: the requests sent so far (method and URL), and the
  outcome the \<open>n\<close>-th request will have.
\<close>

record 'r http =
  sent :: "(http_method \<times> jsstring) list"
  reply :: "nat \<Rightarrow> unit axios_error_scheme + 'r"

definition axios_request ::
  "http_method \<Rightarrow> jsstring \<Rightarrow> 'r http \<Rightarrow> (unit axios_error_scheme + 'r) \<times> 'r http" where
  "axios_request m url net = (reply net (length (sent net)), net\<lparr>sent := sent net @ [(m, url)]\<rparr>)"

datatype js_exception = Error jsstring

text \<open>\<open>a || b\<close> for a string or undefined \<open>a\<close>: the empty string is falsy too.\<close>

definition or_else :: "jsstring option \<Rightarrow> jsstring \<Rightarrow> jsstring" where
  "or_else a b = (case a of None \<Rightarrow> b | Some s \<Rightarrow> if s \<noteq> [] then s else b)"

text \<open>
  The shape every operation of the three services has: one request; on success a field of
  the response; on failure a new \<open>Error\<close>.
\<close>

definition service_call ::
  "http_method \<Rightarrow> jsstring \<Rightarrow> jsstring \<Rightarrow> ('r \<Rightarrow> 'a) \<Rightarrow> 'r http \<Rightarrow> (js_exception + 'a) \<times> 'r http" where
  "service_call m url fallback field net =
     (case axios_request m url net of
        (Inr response, net') \<Rightarrow> (Inr (field response), net')
      | (Inl error, net') \<Rightarrow>
          (let errorMessage = or_else (response_data_error error) fallback
           in (Inl (Error errorMessage), net')))"

definition getUserProfile :: "'r http \<Rightarrow> (js_exception + 'r) \<times> 'r http" where
  "getUserProfile = service_call GET (js ''/api/auth/me'') (js ''Failed to fetch user profile.'') id"

definition authService_login :: "'r http \<Rightarrow> (js_exception + 'r) \<times> 'r http" where
  "authService_login =
     service_call POST (js ''/api/auth/login'') (js ''Login failed. Please try again.'') id"

definition register :: "'r http \<Rightarrow> (js_exception + 'r) \<times> 'r http" where
  "register =
     service_call POST (js ''/api/auth/register'') (js ''Registration failed. Please try again.'') id"

definition getInstances :: "('r \<Rightarrow> 'a) \<Rightarrow> 'r http \<Rightarrow> (js_exception + 'a) \<times> 'r http" where
  "getInstances instances =
     service_call GET (js ''/api/instances/'') (js ''Failed to fetch instances.'') instances"

definition registerInstance :: "('r \<Rightarrow> 'a) \<Rightarrow> 'r http \<Rightarrow> (js_exception + 'a) \<times> 'r http" where
  "registerInstance instance =
     service_call POST (js ''/api/instances/'') (js ''Failed to register instance.'') instance"

definition startMonitoring ::
  "('r \<Rightarrow> 'a) \<Rightarrow> jsstring \<Rightarrow> 'r http \<Rightarrow> (js_exception + 'a) \<times> 'r http" where
  "startMonitoring message instanceId =
     service_call PATCH (js ''/api/instances/'' @ instanceId @ js ''/monitor/start'')
       (js ''Failed to start monitoring.'') message"

definition stopMonitoring ::
  "('r \<Rightarrow> 'a) \<Rightarrow> jsstring \<Rightarrow> 'r http \<Rightarrow> (js_exception + 'a) \<times> 'r http" where
  "stopMonitoring message instanceId =
     service_call PATCH (js ''/api/instances/'' @ instanceId @ js ''/monitor/stop'')
       (js ''Failed to stop monitoring.'') message"

definition deleteInstance ::
  "('r \<Rightarrow> 'a) \<Rightarrow> jsstring \<Rightarrow> 'r http \<Rightarrow> (js_exception + 'a) \<times> 'r http" where
  "deleteInstance message instanceId =
     service_call DELETE (js ''/api/instances/'' @ instanceId)
       (js ''Failed to delete instance.'') message"

definition getMetrics ::
  "('r \<Rightarrow> 'a) \<Rightarrow> jsstring \<Rightarrow> 'r http \<Rightarrow> (js_exception + 'a) \<times> 'r http" where
  "getMetrics metrics instanceId =
     service_call GET (js ''/api/metrics/'' @ instanceId) (js ''Failed to fetch metrics.'') metrics"

definition getScalingDecisions ::
  "jsstring \<Rightarrow> 'r http \<Rightarrow> (js_exception + 'r) \<times> 'r http" where
  "getScalingDecisions instanceId =
     service_call GET (js ''/api/metrics/decisions/'' @ instanceId)
       (js ''Failed to fetch scaling decisions.'') id"

definition simulateMetrics :: "('r \<Rightarrow> 'a) \<Rightarrow> 'r http \<Rightarrow> (js_exception + 'a) \<times> 'r http" where
  "simulateMetrics message =
     service_call POST (js ''/api/metrics/simulate'') (js ''Failed to simulate metrics.'') message"

section \<open>Polling Controller (pages/InstanceMetricsPage.tsx)\<close>

text \<open>The state of the metrics-detail screen.\<close>

record ('m, 'd) page =
  metrics :: 'm
  decisions :: 'd
  loading :: bool
  error :: "jsstring option"

text \<open>
  One fetch cycle. \<open>outcome\<close> is what \<open>Promise.all\<close> of the two service calls settles
  to: the two results, or the first exception, whose \<open>message\<close> is read.
\<close>

definition fetchData ::
  "jsstring option \<Rightarrow> bool \<Rightarrow> js_exception + 'm \<times> 'd \<Rightarrow> ('m, 'd) page \<Rightarrow> ('m, 'd) page" where
  "fetchData instanceId isBackgroundRefresh outcome s =
     (if instanceId = None \<or> instanceId = Some [] then s
      else
        let s1 = (if \<not> isBackgroundRefresh then s\<lparr>loading := True\<rparr> else s);
            s2 = s1\<lparr>error := None\<rparr>;
            s3 = (case outcome of
                    Inr (metricsData, decisionsData) \<Rightarrow>
                      s2\<lparr>metrics := metricsData, decisions := decisionsData, error := None\<rparr>
                  | Inl (Error message) \<Rightarrow>
                      if \<not> isBackgroundRefresh then s2\<lparr>error := Some message\<rparr> else s2)
        in if \<not> isBackgroundRefresh then s3\<lparr>loading := False\<rparr> else s3)"

section \<open>The specification's notions\<close>

text \<open>
  The words of the specification about a token, defined without the code's
  \<open>split\<close>: the number of dots, the text between the first and the second dot, what
  that text decodes to as base64url JSON, and the numeric \<open>exp\<close> claim of a payload.
\<close>

definition dot_count :: "jsstring \<Rightarrow> nat" where
  "dot_count t = count_list t (cu CHR ''.'')"

definition middle_segment :: "jsstring \<Rightarrow> jsstring" where
  "middle_segment t =
     takeWhile (\<lambda>c. c \<noteq> cu CHR ''.'') (tl (dropWhile (\<lambda>c. c \<noteq> cu CHR ''.'') t))"

definition base64url_json :: "jsstring \<Rightarrow> json option" where
  "base64url_json seg =
     (let base64 = replace_all (cu CHR ''_'') (cu CHR ''/'')
                     (replace_all (cu CHR ''-'') (cu CHR ''+'') seg)
      in case atob (padEnd base64 (((length base64 + 3) div 4) * 4) (cu CHR ''='')) of
           Inl e \<Rightarrow> None
         | Inr txt \<Rightarrow> (case JSON_parse txt of Inl e \<Rightarrow> None | Inr v \<Rightarrow> Some v))"

definition numeric_exp :: "json \<Rightarrow> jsnumber option" where
  "numeric_exp v =
     (case v of
        JObject ms \<Rightarrow>
          (case map_of (rev ms) (js ''exp'') of Some (JNumber n) \<Rightarrow> Some n | _ \<Rightarrow> None)
      | _ \<Rightarrow> None)"

text \<open>
  The error a failing operation is to throw: the backend's error string when the
  response carries a non-empty one, else the operation's fallback phrase.
\<close>

definition normalized_error :: "'a axios_error_scheme \<Rightarrow> jsstring \<Rightarrow> js_exception" where
  "normalized_error e fallback =
     Error (case response_data_error e of
              None \<Rightarrow> fallback
            | Some s \<Rightarrow> if s = [] then fallback else s)"

text \<open>The backend after exactly one more request.\<close>

definition one_request :: "http_method \<Rightarrow> jsstring \<Rightarrow> 'r http \<Rightarrow> 'r http" where
  "one_request m url net = net\<lparr>sent := sent net @ [(m, url)]\<rparr>"

section \<open>Example inputs\<close>

text \<open>
  A page freshly loaded with an empty localStorage; a signed-in session on the instances
  screen; a 401 and a 500 response; and a backend whose every request fails with status
  500 and the given error string.
\<close>

definition app0 :: app where
  "app0 = \<lparr> localStorage = Map.empty, isAuthenticated_flag = False, pathname = js ''/'',
            href_assignments = [] \<rparr>"

definition signed_in :: app where
  "signed_in = \<lparr> localStorage = [TOKEN_KEY \<mapsto> js ''x.e30.z''], isAuthenticated_flag = True,
                 pathname = js ''/instances'', href_assignments = [] \<rparr>"

definition unauthorized :: axios_error where
  "unauthorized = \<lparr> response_status = Some 401, response_data_error = None \<rparr>"

definition server_error :: axios_error where
  "server_error = \<lparr> response_status = Some 500, response_data_error = Some [] \<rparr>"

definition failing_backend :: "jsstring option \<Rightarrow> unit http" where
  "failing_backend msg =
     \<lparr> sent = [],
       reply = (\<lambda>n. Inl \<lparr> response_status = Some 500, response_data_error = msg \<rparr>) \<rparr>"

section \<open>Verified properties\<close>

text \<open>
  C9: the password \<open>abc\<close> fails exactly the rules minLength, uppercase, number and
  special (lowercase passes), the password \<open>Abcdef1!\<close> satisfies all five rules, and
  so \<open>isPasswordValid\<close> is false on the first and true on the second.
\<close>

theorem C9_password_examples:
  "validatePasswordRules (js ''abc'') =
     \<lparr> minLength = False, uppercase = False, lowercase = True, number = False, special = False \<rparr>
   \<and> validatePasswordRules (js ''Abcdef1!'') =
     \<lparr> minLength = True, uppercase = True, lowercase = True, number = True, special = True \<rparr>
   \<and> isPasswordValid (js ''abc'') = False
   \<and> isPasswordValid (js ''Abcdef1!'') = True"
  by (simp add: validatePasswordRules_def isPasswordValid_def js_def is_upper_def is_lower_def
      is_digit_def in_range_def cu_def)

lemma str_split_not_Nil: "str_split sep s \<noteq> []"
  by (induction s) (auto split: list.splits)

lemma length_str_split: "length (str_split sep s) = Suc (count_list s sep)"
  by (induction s) (auto split: list.splits simp: str_split_not_Nil)

lemma str_split_decomp:
  "str_split sep s =
     takeWhile (\<lambda>c. c \<noteq> sep) s
       # (case dropWhile (\<lambda>c. c \<noteq> sep) s of [] \<Rightarrow> [] | d # r \<Rightarrow> str_split sep r)"
proof (induction s)
  case Nil
  show ?case by simp
next
  case (Cons c cs)
  show ?case
  proof (cases "c = sep")
    case True
    then show ?thesis by simp
  next
    case False
    then show ?thesis using Cons.IH by (simp split: list.splits)
  qed
qed

lemma str_split_second:
  assumes "sep \<in> set s"
  shows "str_split sep s ! 1 = takeWhile (\<lambda>c. c \<noteq> sep) (tl (dropWhile (\<lambda>c. c \<noteq> sep) s))"
proof -
  from assms obtain d r where dr: "dropWhile (\<lambda>c. c \<noteq> sep) s = d # r"
    by (cases "dropWhile (\<lambda>c. c \<noteq> sep) s") auto
  have "str_split sep s = takeWhile (\<lambda>c. c \<noteq> sep) s # str_split sep r"
    using str_split_decomp [of sep s] dr by simp
  then have "str_split sep s ! 1 = hd (str_split sep r)"
    by (simp add: hd_conv_nth str_split_not_Nil)
  also have "\<dots> = takeWhile (\<lambda>c. c \<noteq> sep) r"
    by (subst str_split_decomp) simp
  finally show ?thesis using dr by simp
qed

lemma decodeJwtPayload_spec:
  "decodeJwtPayload token =
     (if dot_count token \<noteq> 2 then None else base64url_json (middle_segment token))"
proof (cases "dot_count token = 2")
  case False
  then show ?thesis
    by (simp add: decodeJwtPayload_def decodeJwtPayload_try_def length_str_split dot_count_def)
next
  case True
  then have "cu CHR ''.'' \<in> set token"
    unfolding dot_count_def using count_list_0_iff [of token "cu CHR ''.''"] by fastforce
  then have "str_split (cu CHR ''.'') token ! 1 = middle_segment token"
    unfolding middle_segment_def by (rule str_split_second)
  with True show ?thesis
    by (simp add: decodeJwtPayload_def decodeJwtPayload_try_def length_str_split dot_count_def
        base64url_json_def Let_def split: sum.splits)
qed

lemma get_exp_truthy:
  "\<not> falsy (Some v) \<Longrightarrow>
     get_exp (Some v) = Inr (case v of JObject ms \<Rightarrow> map_of (rev ms) (js ''exp'') | _ \<Rightarrow> None)"
  by (cases v) auto

lemma falsy_Some: "falsy (Some v) = (v = JNull \<or> v = JBool False \<or> v = JNumber (Finite 0) \<or> v = JString [])"
  by (cases v) auto

lemma isTokenValid_payload:
  "isTokenValid now token =
     Inr (case decodeJwtPayload token of
            None \<Rightarrow> False
          | Some v \<Rightarrow>
              if v = JNull \<or> v = JBool False \<or> v = JNumber (Finite 0) \<or> v = JString [] then False
              else (case numeric_exp v of
                      None \<Rightarrow> True
                    | Some e \<Rightarrow> number_gt e (now div 1000)))"
proof (cases "decodeJwtPayload token")
  case None
  then show ?thesis by (simp add: isTokenValid_def)
next
  case (Some v)
  show ?thesis
  proof (cases "falsy (Some v)")
    case True
    then show ?thesis using Some by (simp add: isTokenValid_def falsy_Some)
  next
    case False
    then show ?thesis using Some
      by (simp add: isTokenValid_def get_exp_truthy numeric_exp_def falsy_Some
          split: json.splits option.splits)
  qed
qed

text \<open>
  C1 (amended): for every token and every time of the call, \<open>isTokenValid\<close> returns
  false when the token does not have exactly two dots (is not three segments), when its
  middle segment does not decode as base64url JSON, and when the decoded payload is one of
  the falsy values null, false, 0 or the empty string; for any other payload it returns
  true when there is no numeric \<open>exp\<close> claim, and otherwise true exactly when
  \<open>exp\<close> is greater than the current time in whole seconds.
\<close>

theorem C1_isTokenValid_amended:
  "isTokenValid now token =
     Inr (if dot_count token \<noteq> 2 then False
          else (case base64url_json (middle_segment token) of
                  None \<Rightarrow> False
                | Some v \<Rightarrow>
                    if v = JNull \<or> v = JBool False \<or> v = JNumber (Finite 0) \<or> v = JString []
                    then False
                    else (case numeric_exp v of
                            None \<Rightarrow> True
                          | Some e \<Rightarrow> number_gt e (now div 1000))))"
  by (simp add: isTokenValid_payload decodeJwtPayload_spec)

text \<open>
  Checked in November 2023: tokens whose payloads are \<open>{"exp":2000000000}\<close>,
  \<open>{"exp":1}\<close> and \<open>{"sub":"u1"}\<close>, a token of two segments, and a
  token whose middle segment decodes to the text \<open>x\<close>.
\<close>

theorem C1_witness:
  "isTokenValid 1700000000000 (js ''a.eyJleHAiOjIwMDAwMDAwMDB9.c'') = Inr True
   \<and> isTokenValid 1700000000000 (js ''a.eyJleHAiOjF9.c'') = Inr False
   \<and> isTokenValid 1700000000000 (js ''a.eyJzdWIiOiJ1MSJ9.c'') = Inr True
   \<and> isTokenValid 1700000000000 (js ''a.b'') = Inr False
   \<and> isTokenValid 1700000000000 (js ''a.eA.c'') = Inr False"
  unfolding C1_isTokenValid_amended by code_simp

text \<open>
  The claim as first stated fails on the payload \<open>null\<close>: the token has three
  segments, the middle one decodes to JSON, there is no numeric \<open>exp\<close> claim, and
  the result is false.
\<close>

theorem C1_counterexample:
  "dot_count (js ''a.bnVsbA.c'') = 2
   \<and> base64url_json (middle_segment (js ''a.bnVsbA.c'')) = Some JNull
   \<and> numeric_exp JNull = None
   \<and> isTokenValid 1700000000000 (js ''a.bnVsbA.c'') = Inr False"
  by code_simp

text \<open>
  C10: for every input string \<open>isTokenValid\<close> returns a boolean and no exception
  escapes it; whenever \<open>atob\<close> or \<open>JSON.parse\<close> throws inside
  \<open>decodeJwtPayload\<close>, the result is false.
\<close>

theorem C10_isTokenValid_total:
  "(\<exists>b. isTokenValid now token = Inr b)
   \<and> (\<forall>e. decodeJwtPayload_try token = Inl e \<longrightarrow> isTokenValid now token = Inr False)"
  by (auto simp: isTokenValid_payload decodeJwtPayload_def)

theorem C10_witness:
  "decodeJwtPayload_try (js ''a.!.c'') = Inl InvalidCharacterError
   \<and> isTokenValid 0 (js ''a.!.c'') = Inr False"
proof -
  have h: "decodeJwtPayload_try (js ''a.!.c'') = Inl InvalidCharacterError"
    by code_simp
  from C10_isTokenValid_total [of 0 "js ''a.!.c''"] h show ?thesis by blast
qed

lemma isAuthenticated_eq:
  "isAuthenticated now ls =
     Inr (case getToken ls of
            None \<Rightarrow> False
          | Some token \<Rightarrow> token \<noteq> [] \<and> isTokenValid now token = Inr True)"
proof (cases "getToken ls")
  case None
  then show ?thesis by (simp add: isAuthenticated_def)
next
  case (Some token)
  obtain b where b: "isTokenValid now token = Inr b"
    using isTokenValid_payload [of now token] by blast
  with Some show ?thesis by (simp add: isAuthenticated_def)
qed

lemma AuthProvider_startup_eq:
  "AuthProvider_startup now w =
     Inr (w\<lparr>isAuthenticated_flag :=
              (case getToken (localStorage w) of None \<Rightarrow> False | Some t \<Rightarrow> t \<noteq> [])\<rparr>)"
  by (simp add: AuthProvider_startup_def AuthProvider_initial_def AuthProvider_mount_def
      isAuthenticated_eq)

lemma expired_example:
  "isTokenValid 1700000000000 (js ''a.eyJleHAiOjF9.c'') = Inr False"
  by code_simp

lemma js_nonempty: "js ''a.eyJleHAiOjF9.c'' \<noteq> []"
  by (simp add: js_def)

text \<open>
  C2: with a stored token whose \<open>exp\<close> is long past, the first render computes
  Unauthenticated, but the mount effect then sets the flag from the mere presence of the
  token, so the session is Authenticated once startup has completed.
\<close>

theorem C2_expired_token_is_authenticated_after_mount:
  "isTokenValid 1700000000000 (js ''a.eyJleHAiOjF9.c'') = Inr False
   \<and> map_sum id isAuthenticated_flag
        (AuthProvider_initial 1700000000000
           \<lparr> localStorage = [TOKEN_KEY \<mapsto> js ''a.eyJleHAiOjF9.c''],
             isAuthenticated_flag = False, pathname = js ''/'', href_assignments = [] \<rparr>)
       = Inr False
   \<and> map_sum id isAuthenticated_flag
        (AuthProvider_startup 1700000000000
           \<lparr> localStorage = [TOKEN_KEY \<mapsto> js ''a.eyJleHAiOjF9.c''],
             isAuthenticated_flag = False, pathname = js ''/'', href_assignments = [] \<rparr>)
       = Inr True"
  by (simp add: expired_example js_nonempty AuthProvider_startup_eq AuthProvider_initial_def
      isAuthenticated_def getToken_def)

lemma token_invariant_step:
  "isAuthenticated_flag w \<longrightarrow> getToken (localStorage w) \<noteq> None \<Longrightarrow>
   isAuthenticated_flag (apply_event w ev) \<longrightarrow> getToken (localStorage (apply_event w ev)) \<noteq> None"
  by (cases ev) (simp_all add: login_def logout_def setToken_def removeToken_def getToken_def)

lemma token_invariant_run:
  "isAuthenticated_flag w \<longrightarrow> getToken (localStorage w) \<noteq> None \<Longrightarrow>
   isAuthenticated_flag (foldl apply_event w evs)
     \<longrightarrow> getToken (localStorage (foldl apply_event w evs)) \<noteq> None"
proof (induction evs arbitrary: w)
  case Nil
  then show ?case by simp
next
  case (Cons ev evs)
  have "isAuthenticated_flag (apply_event w ev)
          \<longrightarrow> getToken (localStorage (apply_event w ev)) \<noteq> None"
    using Cons.prems by (rule token_invariant_step)
  then show ?case using Cons.IH by simp
qed

lemma token_invariant_startup:
  assumes "AuthProvider_startup now w0 = Inr w"
  shows "isAuthenticated_flag w \<longrightarrow> getToken (localStorage w) \<noteq> None"
  using assms by (auto simp: AuthProvider_startup_eq split: option.splits)

text \<open>
  C3 (amended): in every state reached from startup by \<open>login\<close> and
  \<open>logout\<close>, an authenticated session has a token in the Token Store; and
  \<open>login(token)\<close> always stores the token and sets the flag, with no check of its
  expiry.
\<close>

theorem C3_authenticated_implies_token_stored:
  assumes "AuthProvider_startup now w0 = Inr w"
    and "s = foldl apply_event w evs"
  shows "(isAuthenticated_flag s \<longrightarrow> (\<exists>t. getToken (localStorage s) = Some t))
         \<and> isAuthenticated_flag (login token s)
         \<and> getToken (localStorage (login token s)) = Some token"
proof -
  have "isAuthenticated_flag s \<longrightarrow> getToken (localStorage s) \<noteq> None"
    unfolding assms(2)
    by (rule token_invariant_run) (rule token_invariant_startup [OF assms(1)])
  then show ?thesis
    by (auto simp: login_def setToken_def getToken_def)
qed

theorem C3_witness:
  "AuthProvider_startup 1700000000000 app0 = Inr app0
   \<and> isAuthenticated_flag (foldl apply_event app0 [Login (js ''x.e30.z''), Logout, Login (js ''x.e30.z'')])
   \<and> getToken (localStorage (foldl apply_event app0 [Login (js ''x.e30.z''), Logout, Login (js ''x.e30.z'')]))
       = Some (js ''x.e30.z'')"
proof -
  have h: "AuthProvider_startup 1700000000000 app0 = Inr app0"
    by (simp add: AuthProvider_startup_eq app0_def getToken_def)
  show ?thesis
    using C3_authenticated_implies_token_stored [OF h refl, of "[Login (js ''x.e30.z''), Logout]" "js ''x.e30.z''"] h
    by simp
qed

text \<open>
  The claim as first stated fails for \<open>login\<close> with an expired token: the session is
  authenticated and the stored token is not valid. It fails for the forced logout too:
  after a 401 the store is empty and the flag is still set.
\<close>

theorem C3_counterexample:
  "AuthProvider_startup 1700000000000 app0 = Inr app0
   \<and> isAuthenticated_flag (login (js ''a.eyJleHAiOjF9.c'') app0)
   \<and> getToken (localStorage (login (js ''a.eyJleHAiOjF9.c'') app0)) = Some (js ''a.eyJleHAiOjF9.c'')
   \<and> isTokenValid 1700000000000 (js ''a.eyJleHAiOjF9.c'') = Inr False
   \<and> isAuthenticated_flag
        (snd (response_onRejected unauthorized (login (js ''x.e30.z'') app0)
              :: (axios_error + unit) \<times> app))
   \<and> getToken (localStorage
        (snd (response_onRejected unauthorized (login (js ''x.e30.z'') app0)
              :: (axios_error + unit) \<times> app))) = None"
  by (simp add: expired_example login_def setToken_def getToken_def AuthProvider_startup_eq
      app0_def response_onRejected_def unauthorized_def removeToken_def Let_def)

lemma handle_errors_token:
  "getToken (localStorage (handle_errors es w)) =
     (if \<exists>e \<in> set es. response_status e = Some 401 then None else getToken (localStorage w))"
  by (induction es arbitrary: w)
     (auto simp: response_onRejected_def Let_def removeToken_def getToken_def)

text \<open>
  C4 (amended): the error handler always rejects with the error it was given and never
  writes the session flag or the pathname; a 401 leaves the Token Store without a token,
  and it stays so whatever other responses fail afterwards; on a 401 the handler assigns
  \<open>/login\<close> to \<open>window.location.href\<close>, once, when the pathname is not
  \<open>/login\<close>, and assigns nothing otherwise; any page that then starts on the
  store the handler left, such as the login page the assignment asks for, starts
  Unauthenticated; an error of any other status leaves the whole state as it was.
\<close>

theorem C4_response_error_handling:
  "fst (response_onRejected e w :: ('a axios_error_scheme + 'r) \<times> app) = Inl e
   \<and> isAuthenticated_flag (snd (response_onRejected e w :: ('a axios_error_scheme + 'r) \<times> app))
       = isAuthenticated_flag w
   \<and> pathname (snd (response_onRejected e w :: ('a axios_error_scheme + 'r) \<times> app)) = pathname w
   \<and> getToken (localStorage (snd (response_onRejected e w :: ('a axios_error_scheme + 'r) \<times> app)))
       = (if response_status e = Some 401 then None else getToken (localStorage w))
   \<and> href_assignments (snd (response_onRejected e w :: ('a axios_error_scheme + 'r) \<times> app))
       = (if response_status e = Some 401 \<and> pathname w \<noteq> js ''/login''
          then href_assignments w @ [js ''/login'']
          else href_assignments w)
   \<and> (if response_status e = Some 401
       then getToken (localStorage (handle_errors (e # es) w)) = None
            \<and> map_sum id isAuthenticated_flag
                 (AuthProvider_startup now
                    (p\<lparr>localStorage :=
                         localStorage
                           (snd (response_onRejected e w :: ('a axios_error_scheme + 'r) \<times> app))\<rparr>))
                = Inr False
       else snd (response_onRejected e w :: ('a axios_error_scheme + 'r) \<times> app) = w)"
  by (simp add: handle_errors_token AuthProvider_startup_eq)
     (simp add: response_onRejected_def Let_def removeToken_def getToken_def)

text \<open>
  A 401 on the instances screen of a signed-in session, alone and among other failures,
  with the login page loaded afterwards; the same 401 on the login screen; and a 500.
\<close>

theorem C4_witness:
  "fst (response_onRejected unauthorized signed_in :: (axios_error + unit) \<times> app) = Inl unauthorized
   \<and> getToken (localStorage (snd (response_onRejected unauthorized signed_in :: (axios_error + unit) \<times> app))) = None
   \<and> href_assignments (snd (response_onRejected unauthorized signed_in :: (axios_error + unit) \<times> app))
       = [js ''/login'']
   \<and> map_sum id isAuthenticated_flag
        (AuthProvider_startup 1700000000000
           (app0\<lparr>localStorage :=
                   localStorage
                     (snd (response_onRejected unauthorized signed_in :: (axios_error + unit) \<times> app))\<rparr>))
       = Inr False
   \<and> href_assignments
        (snd (response_onRejected unauthorized (signed_in\<lparr>pathname := js ''/login''\<rparr>)
              :: (axios_error + unit) \<times> app)) = []
   \<and> getToken (localStorage (handle_errors [unauthorized, server_error, unauthorized] signed_in)) = None
   \<and> snd (response_onRejected server_error signed_in :: (axios_error + unit) \<times> app) = signed_in"
proof -
  have p: "pathname signed_in \<noteq> js ''/login''"
    by (simp add: signed_in_def js_def)
  show ?thesis
    using C4_response_error_handling
        [of unauthorized signed_in "[server_error, unauthorized]" 1700000000000 app0,
         where 'r = unit]
      C4_response_error_handling
        [of unauthorized "signed_in\<lparr>pathname := js ''/login''\<rparr>" "[]" 0 app0, where 'r = unit]
      C4_response_error_handling [of server_error signed_in "[]" 0 app0, where 'r = unit]
      p
    by (simp add: unauthorized_def server_error_def signed_in_def)
qed

text \<open>
  The claim as first stated fails on the session flag: after a 401 on the instances
  screen the error is handed to the caller while the session is still Authenticated.
\<close>

theorem C4_counterexample:
  "response_status unauthorized = Some 401
   \<and> isAuthenticated_flag signed_in
   \<and> isAuthenticated_flag (snd (response_onRejected unauthorized signed_in :: (axios_error + unit) \<times> app))"
  by (simp add: response_onRejected_def unauthorized_def signed_in_def Let_def)

text \<open>
  C8: on a 401 the handler assigns \<open>/login\<close> to \<open>window.location.href\<close>
  exactly when the current pathname is not \<open>/login\<close>.
\<close>

theorem C8_redirect_only_when_not_on_login:
  "response_status e = Some 401 \<Longrightarrow>
   href_assignments (snd (response_onRejected e w :: ('a axios_error_scheme + 'r) \<times> app)) =
     (if pathname w = js ''/login'' then href_assignments w
      else href_assignments w @ [js ''/login''])"
  by (simp add: response_onRejected_def Let_def)

theorem C8_witness:
  "href_assignments (snd (response_onRejected unauthorized signed_in :: (axios_error + unit) \<times> app))
     = [js ''/login'']
   \<and> href_assignments
        (snd (response_onRejected unauthorized (signed_in\<lparr>pathname := js ''/login''\<rparr>)
              :: (axios_error + unit) \<times> app)) = []"
proof -
  have h: "response_status unauthorized = Some 401" by (simp add: unauthorized_def)
  have p: "pathname signed_in \<noteq> js ''/login''" by (simp add: signed_in_def js_def)
  show ?thesis
    using C8_redirect_only_when_not_on_login [OF h, of signed_in, where 'r = unit]
      C8_redirect_only_when_not_on_login [OF h, of "signed_in\<lparr>pathname := js ''/login''\<rparr>", where 'r = unit]
      p
    by (simp add: signed_in_def)
qed

text \<open>
  C7 (amended): when the Token Store holds a non-empty token and the configuration has a
  headers object, the interceptor sets the Authorization header to \<open>Bearer \<close>
  followed by the token and changes nothing else; when the store holds no token, or the
  empty string, the configuration is forwarded as it is.
\<close>

theorem C7_request_interceptor:
  "(getToken ls = Some t \<and> t \<noteq> [] \<and> headers config = Some h \<longrightarrow>
      request_onFulfilled ls config
        = config\<lparr>headers := Some (h(''Authorization'' \<mapsto> js ''Bearer '' @ t))\<rparr>)
   \<and> (getToken ls = None \<or> getToken ls = Some [] \<longrightarrow> request_onFulfilled ls config = config)"
  by (auto simp: request_onFulfilled_def split: option.splits)

theorem C7_witness:
  "request_onFulfilled [TOKEN_KEY \<mapsto> js ''x.y.z''] \<lparr> headers = Some Map.empty \<rparr>
     = \<lparr> headers = Some [''Authorization'' \<mapsto> js ''Bearer x.y.z''] \<rparr>
   \<and> request_onFulfilled Map.empty \<lparr> headers = Some Map.empty \<rparr> = \<lparr> headers = Some Map.empty \<rparr>"
proof -
  have a: "getToken [TOKEN_KEY \<mapsto> js ''x.y.z''] = Some (js ''x.y.z'') \<and> js ''x.y.z'' \<noteq> []
           \<and> headers \<lparr> headers = Some Map.empty \<rparr> = Some Map.empty"
    by (simp add: getToken_def js_def)
  have b: "getToken Map.empty = None \<or> getToken Map.empty = Some []"
    by (simp add: getToken_def)
  show ?thesis
    using C7_request_interceptor [of "[TOKEN_KEY \<mapsto> js ''x.y.z'']" "js ''x.y.z''" "\<lparr> headers = Some Map.empty \<rparr>" Map.empty]
      C7_request_interceptor [of Map.empty "[]" "\<lparr> headers = Some Map.empty \<rparr>" Map.empty]
      a b
    by (simp add: js_def)
qed

text \<open>
  The claim as first stated fails when the stored token is the empty string: the store
  holds a token and no header is added.
\<close>

theorem C7_counterexample:
  "getToken [TOKEN_KEY \<mapsto> []] = Some []
   \<and> request_onFulfilled [TOKEN_KEY \<mapsto> []] \<lparr> headers = Some Map.empty \<rparr>
       = \<lparr> headers = Some Map.empty \<rparr>"
  by (simp add: request_onFulfilled_def getToken_def)

text \<open>
  C5: a failing background cycle, started while an error is displayed, ends with no error
  displayed: the error is cleared before the requests are made and is not restored.
\<close>

theorem C5_background_failure_clears_error:
  "fetchData (Some (js ''i-1'')) True (Inl (Error (js ''Failed to fetch metrics.'')))
     \<lparr> metrics = [] :: nat list, decisions = [] :: nat list, loading = False,
       error = Some (js ''Failed to fetch scaling decisions.'') \<rparr>
   = \<lparr> metrics = [], decisions = [], loading = False, error = None \<rparr>"
  by (simp add: fetchData_def js_def)

lemma service_call_failure:
  "reply net (length (sent net)) = Inl e \<Longrightarrow>
   service_call m url fallback field net = (Inl (normalized_error e fallback), one_request m url net)"
  by (simp add: service_call_def axios_request_def normalized_error_def one_request_def or_else_def
      split: option.splits)

text \<open>
  C6 (amended): when its request fails, each operation of the three services sends that
  one request only and throws a new \<open>Error\<close> whose message is the backend's error
  string when the response carries a non-empty one, and the operation's own fallback
  phrase otherwise.
\<close>

theorem C6_service_errors_normalized:
  assumes "reply net (length (sent net)) = Inl e"
  shows "getInstances fa net =
           (Inl (normalized_error e (js ''Failed to fetch instances.'')),
            one_request GET (js ''/api/instances/'') net)
       \<and> registerInstance fb net =
           (Inl (normalized_error e (js ''Failed to register instance.'')),
            one_request POST (js ''/api/instances/'') net)
       \<and> startMonitoring fc i net =
           (Inl (normalized_error e (js ''Failed to start monitoring.'')),
            one_request PATCH (js ''/api/instances/'' @ i @ js ''/monitor/start'') net)
       \<and> stopMonitoring fd i net =
           (Inl (normalized_error e (js ''Failed to stop monitoring.'')),
            one_request PATCH (js ''/api/instances/'' @ i @ js ''/monitor/stop'') net)
       \<and> deleteInstance fe i net =
           (Inl (normalized_error e (js ''Failed to delete instance.'')),
            one_request DELETE (js ''/api/instances/'' @ i) net)
       \<and> getUserProfile net =
           (Inl (normalized_error e (js ''Failed to fetch user profile.'')),
            one_request GET (js ''/api/auth/me'') net)
       \<and> authService_login net =
           (Inl (normalized_error e (js ''Login failed. Please try again.'')),
            one_request POST (js ''/api/auth/login'') net)
       \<and> register net =
           (Inl (normalized_error e (js ''Registration failed. Please try again.'')),
            one_request POST (js ''/api/auth/register'') net)
       \<and> getMetrics ff i net =
           (Inl (normalized_error e (js ''Failed to fetch metrics.'')),
            one_request GET (js ''/api/metrics/'' @ i) net)
       \<and> getScalingDecisions i net =
           (Inl (normalized_error e (js ''Failed to fetch scaling decisions.'')),
            one_request GET (js ''/api/metrics/decisions/'' @ i) net)
       \<and> simulateMetrics fg net =
           (Inl (normalized_error e (js ''Failed to simulate metrics.'')),
            one_request POST (js ''/api/metrics/simulate'') net)"
  unfolding getInstances_def registerInstance_def startMonitoring_def stopMonitoring_def
    deleteInstance_def getUserProfile_def authService_login_def register_def getMetrics_def
    getScalingDecisions_def simulateMetrics_def
  by (simp add: service_call_failure [OF assms])

theorem C6_witness:
  "fst (getInstances id (failing_backend (Some (js ''Database unavailable''))))
     = Inl (Error (js ''Database unavailable''))
   \<and> fst (getInstances id (failing_backend None)) = Inl (Error (js ''Failed to fetch instances.''))
   \<and> sent (snd (getInstances id (failing_backend None))) = [(GET, js ''/api/instances/'')]"
proof -
  have a: "reply (failing_backend m) (length (sent (failing_backend m)))
             = Inl \<lparr> response_status = Some 500, response_data_error = m \<rparr>" for m
    by (simp add: failing_backend_def)
  show ?thesis
    using C6_service_errors_normalized
        [OF a [of "Some (js ''Database unavailable'')"], where fa = id, THEN conjunct1]
      C6_service_errors_normalized [OF a [of None], where fa = id, THEN conjunct1]
    by (simp add: normalized_error_def one_request_def failing_backend_def js_def)
qed

text \<open>
  The claim as first stated fails when the backend's error string is empty: the response
  carries an error string, and the message is the fallback phrase.
\<close>

theorem C6_counterexample:
  "response_data_error \<lparr> response_status = Some 500, response_data_error = Some [] \<rparr> = Some []
   \<and> fst (getInstances id (failing_backend (Some []))) = Inl (Error (js ''Failed to fetch instances.''))
   \<and> js ''Failed to fetch instances.'' \<noteq> []"
  by (simp add: getInstances_def service_call_def axios_request_def failing_backend_def or_else_def
      js_def)

end
